theory Spec2Isabelle
  imports Complex_Main
begin

section \<open>Root finding: values, exceptions and observable effects\<close>

text \<open>
  The module \<^verbatim>\<open>Rootfinding.py\<close> holds four solvers: \<^verbatim>\<open>fixed_point_iteration\<close>,
  \<^verbatim>\<open>Newton_Raphson\<close>, \<^verbatim>\<open>Secante\<close> and \<^verbatim>\<open>steffensen\<close>. Python floats are idealised
  as \<^typ>\<open>real\<close>: rounding, overflow, infinities and NaN are outside the model, so the
  theorems below are about the control flow of the solvers under exact arithmetic.
  What Python does beyond returning a value is written out:
  \<^item> an exception is a value of \<open>error\<close> (\<open>Inl\<close> of the result); the numbers are
    Python floats, and dividing one Python float by another that is zero raises
    \<open>ZeroDivisionError\<close> (numpy scalars divide differently: see the section on
    \<^verbatim>\<open>Newton_Raphson\<close> with numpy scalars);
  \<^item> the module-level table \<^verbatim>\<open>resultados\<close> is a field of the state that every solver
    takes and returns;
  \<^item> calls of the caller-supplied functions, entries into a loop body and prints are
    appended to the field \<open>events\<close> of the state, in the order in which they happen.
\<close>

datatype error = ValueError string | ZeroDivisionError

definition did_not_converge :: error where
  "did_not_converge = ValueError ''Did not converge within the maximum number of iterations.''"

definition could_not_broadcast :: error where
  "could_not_broadcast = ValueError ''operands could not be broadcast together''"

type_synonym row = "int \<times> real \<times> real"

datatype 'a event =
    Call_f 'a
  | Call_fp 'a
  | Enter_loop int
  | Print_table "row list"
  | Print_ER real
  | Print_text string

record 'a state =
  resultados :: "row list"
  events :: "'a event list"

definition emit :: "'a event \<Rightarrow> 'a state \<Rightarrow> 'a state" where
  "emit e s = s\<lparr>events := events s @ [e]\<rparr>"

definition clear_rows :: "'a state \<Rightarrow> 'a state" where
  "clear_rows s = s\<lparr>resultados := []\<rparr>"

definition add_row :: "row \<Rightarrow> 'a state \<Rightarrow> 'a state" where
  "add_row r s = s\<lparr>resultados := resultados s @ [r]\<rparr>"

text \<open>\<^verbatim>\<open>range(n)\<close>: the indices \<open>0, ..., n - 1\<close>, none when \<open>n \<le> 0\<close>.\<close>

definition range_py :: "int \<Rightarrow> int list" where
  "range_py n = [0..n - 1]"

section \<open>numpy's closeness test\<close>

text \<open>
  One-dimensional arrays are lists of reals. \<^verbatim>\<open>np.allclose(a, b, atol=tol)\<close> leaves
  \<^verbatim>\<open>rtol\<close> at numpy's default \<open>1e-05\<close> and tests \<open>|a - b| \<le> atol + rtol * |b|\<close> on every
  pair of the broadcast operands. Two one-dimensional operands broadcast when their
  lengths agree or one of them has length one; otherwise numpy raises \<open>ValueError\<close>.
\<close>

definition rtol :: real where
  "rtol = 1 / 100000"

definition broadcast :: "real list \<Rightarrow> real list \<Rightarrow> (real \<times> real) list option" where
  "broadcast a b =
     (if length a = length b then Some (zip a b)
      else if length a = 1 then Some (map (\<lambda>y. (hd a, y)) b)
      else if length b = 1 then Some (map (\<lambda>x. (x, hd b)) a)
      else None)"

definition isclose :: "real \<Rightarrow> real \<times> real \<Rightarrow> bool" where
  "isclose atol ab = (\<bar>fst ab - snd ab\<bar> \<le> atol + rtol * \<bar>snd ab\<bar>)"

definition allclose :: "real list \<Rightarrow> real list \<Rightarrow> real \<Rightarrow> error + bool" where
  "allclose a b atol =
     (case broadcast a b of
        None \<Rightarrow> Inl could_not_broadcast
      | Some ps \<Rightarrow> Inr (list_all (isclose atol) ps))"

text \<open>
  The test the specification describes, for comparison: every component of the
  difference has absolute value at most \<open>tol\<close>, with no relative term.
\<close>

definition spec_close :: "real list \<Rightarrow> real list \<Rightarrow> real \<Rightarrow> bool" where
  "spec_close a b tol = list_all2 (\<lambda>x y. \<bar>x - y\<bar> \<le> tol) a b"

section \<open>The four solvers\<close>

subsection \<open>\<^verbatim>\<open>fixed_point_iteration\<close>\<close>

fun fixed_point_for ::
  "(real list \<Rightarrow> real list) \<Rightarrow> real \<Rightarrow> int list \<Rightarrow> real list \<Rightarrow> real list state
     \<Rightarrow> (error + real list) \<times> real list state" where
  "fixed_point_for f tol [] x s = (Inl did_not_converge, s)"
| "fixed_point_for f tol (i # is) x s =
     (let s1 = emit (Call_f x) (emit (Enter_loop i) s);
          x_new = f x
      in case allclose x_new x tol of
           Inl e \<Rightarrow> (Inl e, s1)
         | Inr close \<Rightarrow>
             if close then (Inr x_new, s1)
             else fixed_point_for f tol is x_new s1)"

definition fixed_point_iteration ::
  "(real list \<Rightarrow> real list) \<Rightarrow> real list \<Rightarrow> real \<Rightarrow> int \<Rightarrow> real list state
     \<Rightarrow> (error + real list) \<times> real list state" where
  "fixed_point_iteration f x0 tol max_iter s =
     fixed_point_for f tol (range_py max_iter) x0 s"

subsection \<open>\<^verbatim>\<open>Newton_Raphson\<close>\<close>

text \<open>
  On convergence the solver prints the table and then the relative error
  \<open>|p - p_0| / |p| * 100\<close>; that division raises when \<open>p\<close> is zero, before the
  \<^verbatim>\<open>return\<close> is reached.

  Line 84 has no test of its own for a zero derivative: \<open>f(p_0) / fp(p_0)\<close> is a
  division of two Python floats here, and it is that division which raises when the
  divisor is zero. The test \<open>fp p_0 = 0\<close> below is this behaviour of the division.
\<close>

definition report :: "real \<Rightarrow> real \<Rightarrow> real state \<Rightarrow> (error + real) \<times> real state" where
  "report p p_prev s =
     (let s1 = emit (Print_table (resultados s)) s
      in if \<bar>p\<bar> = 0 then (Inl ZeroDivisionError, s1)
         else (Inr p, emit (Print_ER (\<bar>p - p_prev\<bar> / \<bar>p\<bar> * 100)) s1))"

fun Newton_for ::
  "(real \<Rightarrow> real) \<Rightarrow> (real \<Rightarrow> real) \<Rightarrow> real \<Rightarrow> int list \<Rightarrow> real \<Rightarrow> real state
     \<Rightarrow> (error + real) \<times> real state" where
  "Newton_for f fp TOL [] p_0 s = (Inl did_not_converge, s)"
| "Newton_for f fp TOL (i # is) p_0 s =
     (let s1 = emit (Call_fp p_0) (emit (Call_f p_0) (emit (Enter_loop i) s))
      in if fp p_0 = 0 then (Inl ZeroDivisionError, s1)
         else
           let p = p_0 - f p_0 / fp p_0;
               s2 = add_row (i, p, f p) (emit (Call_f p) s1)
           in if \<bar>p - p_0\<bar> < TOL then report p p_0 s2
              else Newton_for f fp TOL is p s2)"

definition Newton_Raphson ::
  "(real \<Rightarrow> real) \<Rightarrow> (real \<Rightarrow> real) \<Rightarrow> real \<Rightarrow> real \<Rightarrow> int \<Rightarrow> real state
     \<Rightarrow> (error + real) \<times> real state" where
  "Newton_Raphson f fp p_0 TOL N_0 s =
     Newton_for f fp TOL (range_py N_0) p_0 (clear_rows s)"

subsection \<open>\<^verbatim>\<open>Secante\<close>\<close>

fun Secante_for ::
  "(real \<Rightarrow> real) \<Rightarrow> real \<Rightarrow> int list \<Rightarrow> real \<Rightarrow> real \<Rightarrow> real \<Rightarrow> real \<Rightarrow> real state
     \<Rightarrow> (error + real) \<times> real state" where
  "Secante_for f TOL [] p_0 q_0 p_1 q_1 s = (Inl did_not_converge, s)"
| "Secante_for f TOL (i # is) p_0 q_0 p_1 q_1 s =
     (let s1 = emit (Enter_loop i) s
      in if q_1 - q_0 = 0 then (Inl ZeroDivisionError, s1)
         else
           let p = p_1 - q_1 * (p_1 - p_0) / (q_1 - q_0);
               s2 = add_row (i, p, f p) (emit (Call_f p) s1)
           in if \<bar>p - p_1\<bar> < TOL then report p p_1 s2
              else Secante_for f TOL is p_1 q_1 p (f p) (emit (Call_f p) s2))"

definition Secante ::
  "(real \<Rightarrow> real) \<Rightarrow> real \<Rightarrow> real \<Rightarrow> real \<Rightarrow> int \<Rightarrow> real state
     \<Rightarrow> (error + real) \<times> real state" where
  "Secante f p_0 p_1 TOL N_0 s =
     (let s1 = clear_rows s;
          q_0 = f p_0;
          q_1 = f p_1;
          s2 = emit (Call_f p_1) (emit (Call_f p_0) s1);
          s3 = add_row (1, p_1, q_1) (add_row (0, p_0, q_0) s2)
      in Secante_for f TOL (range_py N_0) p_0 q_0 p_1 q_1 s3)"

subsection \<open>\<^verbatim>\<open>steffensen\<close>\<close>

text \<open>
  The result is \<open>Inr None\<close> where the source prints its warning and returns \<^verbatim>\<open>None\<close>,
  and \<open>Inr (Some x)\<close> where it returns the float \<open>x\<close>.
\<close>

definition denominator_warning :: string where
  "denominator_warning = ''Denominator too small. Method might not converge.''"

fun steffensen_for ::
  "(real \<Rightarrow> real) \<Rightarrow> real \<Rightarrow> int list \<Rightarrow> real \<Rightarrow> real state
     \<Rightarrow> (error + real option) \<times> real state" where
  "steffensen_for f tol [] x s = (Inl did_not_converge, s)"
| "steffensen_for f tol (i # is) x s =
     (let x_next = f x;
          x_next_next = f x_next;
          s1 = emit (Call_f x_next) (emit (Call_f x) (emit (Enter_loop i) s));
          denominator = x_next_next - 2 * x_next + x
      in if \<bar>denominator\<bar> < tol
         then (Inr None, emit (Print_text denominator_warning) s1)
         else if denominator = 0 then (Inl ZeroDivisionError, s1)
         else
           let x_new = x - ((x_next - x) ^ 2) / denominator
           in if \<bar>x_new - x\<bar> < tol then (Inr (Some x_new), s1)
              else steffensen_for f tol is x_new s1)"

definition steffensen ::
  "(real \<Rightarrow> real) \<Rightarrow> real \<Rightarrow> real \<Rightarrow> int \<Rightarrow> real state
     \<Rightarrow> (error + real option) \<times> real state" where
  "steffensen f x0 tol max_iter s = steffensen_for f tol (range_py max_iter) x0 s"

section \<open>The heap-level reading of \<^verbatim>\<open>fixed_point_iteration\<close>\<close>

text \<open>
  numpy arrays are mutable objects, so whether the caller's \<^verbatim>\<open>x0\<close> survives a call is a
  question about aliasing. Here an array lives in a heap, a list of array contents
  indexed by address; \<^verbatim>\<open>np.array(obj)\<close> allocates a new array holding a copy of
  \<^verbatim>\<open>obj\<close>. The caller-supplied function takes the heap and the address of its
  argument and returns the heap it leaves behind and the address of its result: it may
  write into its argument, allocate, or hand its argument back.
\<close>

type_synonym addr = nat
type_synonym heap = "real list list"
type_synonym heap_fn = "heap \<Rightarrow> addr \<Rightarrow> heap \<times> addr"

definition np_array :: "heap \<Rightarrow> addr \<Rightarrow> heap \<times> addr" where
  "np_array h a = (h @ [h ! a], length h)"

fun fixed_point_heap_for ::
  "heap_fn \<Rightarrow> real \<Rightarrow> int list \<Rightarrow> addr \<Rightarrow> heap \<Rightarrow> (error + addr) \<times> heap" where
  "fixed_point_heap_for f tol [] x h = (Inl did_not_converge, h)"
| "fixed_point_heap_for f tol (i # is) x h =
     (let (h1, y) = f h x;
          (h2, x_new) = np_array h1 y
      in case allclose (h2 ! x_new) (h2 ! x) tol of
           Inl e \<Rightarrow> (Inl e, h2)
         | Inr close \<Rightarrow>
             if close then (Inr x_new, h2)
             else fixed_point_heap_for f tol is x_new h2)"

definition fixed_point_iteration_heap ::
  "heap_fn \<Rightarrow> addr \<Rightarrow> real \<Rightarrow> int \<Rightarrow> heap \<Rightarrow> (error + addr) \<times> heap" where
  "fixed_point_iteration_heap f x0 tol max_iter h =
     (let (h1, x) = np_array h x0
      in fixed_point_heap_for f tol (range_py max_iter) x h1)"

text \<open>
  A function that computes its result from the contents of its argument and writes
  nowhere, as a heap function: the result is a new array.
\<close>

definition pure_fn :: "(real list \<Rightarrow> real list) \<Rightarrow> heap_fn" where
  "pure_fn g h a = (h @ [g (h ! a)], length h)"

text \<open>
  What a call of the caller's function may do to the array at address \<open>a0\<close> when it is
  handed another array: nothing. Addresses stay valid and the result is an address of
  the heap returned.
\<close>

definition leaves_alone :: "heap_fn \<Rightarrow> addr \<Rightarrow> bool" where
  "leaves_alone f a0 =
     (\<forall>h a. a0 < length h \<and> a < length h \<and> a \<noteq> a0 \<longrightarrow>
        a0 < length (fst (f h a)) \<and> fst (f h a) ! a0 = h ! a0 \<and>
        snd (f h a) < length (fst (f h a)))"

section \<open>\<^verbatim>\<open>Newton_Raphson\<close> with numpy scalars\<close>

text \<open>
  What line 84 does with a zero derivative depends on the operands. A value is a
  Python float or a numpy scalar (\<^verbatim>\<open>np.float64\<close>), and it is finite, infinite or NaN.
  Finite values are exact reals and a zero is taken as \<open>+0.0\<close>. An operation on two
  Python floats yields a Python float, any other a numpy scalar. Division of two Python
  floats raises \<open>ZeroDivisionError\<close> when the divisor is zero; with a numpy scalar on
  either side it follows IEEE 754 and yields an infinity or NaN (numpy only warns).
  The run below is \<^verbatim>\<open>Newton_Raphson\<close> on such values; the table starts empty, as after
  \<^verbatim>\<open>clear_rows\<close>, and holds the rows added. Of the relative error printed on
  convergence only the division is kept, which may raise; the product with \<open>100\<close> cannot.
\<close>

datatype kind = Py | Np

datatype xreal = Fin real | PInf | NInf | NaN

type_synonym val = "kind \<times> xreal"

type_synonym vrow = "int \<times> val \<times> val"

definition join :: "kind \<Rightarrow> kind \<Rightarrow> kind" where
  "join a b = (if a = Py \<and> b = Py then Py else Np)"

fun x_sub :: "xreal \<Rightarrow> xreal \<Rightarrow> xreal" where
  "x_sub NaN b = NaN"
| "x_sub a NaN = NaN"
| "x_sub (Fin a) (Fin b) = Fin (a - b)"
| "x_sub (Fin a) PInf = NInf"
| "x_sub (Fin a) NInf = PInf"
| "x_sub PInf PInf = NaN"
| "x_sub PInf b = PInf"
| "x_sub NInf NInf = NaN"
| "x_sub NInf b = NInf"

fun x_div :: "xreal \<Rightarrow> xreal \<Rightarrow> xreal" where
  "x_div NaN b = NaN"
| "x_div a NaN = NaN"
| "x_div (Fin a) (Fin b) =
     (if b = 0 then (if a = 0 then NaN else if 0 < a then PInf else NInf)
      else Fin (a / b))"
| "x_div (Fin a) b = Fin 0"
| "x_div PInf (Fin b) = (if b < 0 then NInf else PInf)"
| "x_div NInf (Fin b) = (if b < 0 then PInf else NInf)"
| "x_div a b = NaN"

fun x_abs :: "xreal \<Rightarrow> xreal" where
  "x_abs (Fin a) = Fin \<bar>a\<bar>"
| "x_abs PInf = PInf"
| "x_abs NInf = PInf"
| "x_abs NaN = NaN"

fun x_less :: "xreal \<Rightarrow> xreal \<Rightarrow> bool" where
  "x_less NaN b = False"
| "x_less a NaN = False"
| "x_less (Fin a) (Fin b) = (a < b)"
| "x_less a NInf = False"
| "x_less PInf b = False"
| "x_less a b = True"

definition val_sub :: "val \<Rightarrow> val \<Rightarrow> val" where
  "val_sub a b = (join (fst a) (fst b), x_sub (snd a) (snd b))"

definition val_abs :: "val \<Rightarrow> val" where
  "val_abs a = (fst a, x_abs (snd a))"

definition val_less :: "val \<Rightarrow> val \<Rightarrow> bool" where
  "val_less a b = x_less (snd a) (snd b)"

text \<open>\<open>a / b\<close>: the case in which Python raises, and the quotient otherwise.\<close>

definition zero_division :: "val \<Rightarrow> val \<Rightarrow> bool" where
  "zero_division a b = (fst a = Py \<and> fst b = Py \<and> snd b = Fin 0)"

definition val_quot :: "val \<Rightarrow> val \<Rightarrow> val" where
  "val_quot a b = (join (fst a) (fst b), x_div (snd a) (snd b))"

definition val_div :: "val \<Rightarrow> val \<Rightarrow> error + val" where
  "val_div a b = (if zero_division a b then Inl ZeroDivisionError else Inr (val_quot a b))"

fun Newton_val_for ::
  "(val \<Rightarrow> val) \<Rightarrow> (val \<Rightarrow> val) \<Rightarrow> val \<Rightarrow> int list \<Rightarrow> val \<Rightarrow> vrow list
     \<Rightarrow> (error + val) \<times> vrow list" where
  "Newton_val_for f fp TOL [] p_0 tbl = (Inl did_not_converge, tbl)"
| "Newton_val_for f fp TOL (i # is) p_0 tbl =
     (case val_div (f p_0) (fp p_0) of
        Inl e \<Rightarrow> (Inl e, tbl)
      | Inr q \<Rightarrow>
          let p = val_sub p_0 q;
              tbl1 = tbl @ [(i, p, f p)]
          in if val_less (val_abs (val_sub p p_0)) TOL
             then (case val_div (val_abs (val_sub p p_0)) (val_abs p) of
                     Inl e \<Rightarrow> (Inl e, tbl1)
                   | Inr er \<Rightarrow> (Inr p, tbl1))
             else Newton_val_for f fp TOL is p tbl1)"

definition Newton_Raphson_val ::
  "(val \<Rightarrow> val) \<Rightarrow> (val \<Rightarrow> val) \<Rightarrow> val \<Rightarrow> val \<Rightarrow> int \<Rightarrow> (error + val) \<times> vrow list" where
  "Newton_Raphson_val f fp p_0 TOL N_0 = Newton_val_for f fp TOL (range_py N_0) p_0 []"

text \<open>The iterates of this run, with the quotient that line 84 computes when it does not raise.\<close>

definition val_newton_step :: "(val \<Rightarrow> val) \<Rightarrow> (val \<Rightarrow> val) \<Rightarrow> val \<Rightarrow> val" where
  "val_newton_step f fp p = val_sub p (val_quot (f p) (fp p))"

primrec val_newton_iterate :: "(val \<Rightarrow> val) \<Rightarrow> (val \<Rightarrow> val) \<Rightarrow> nat \<Rightarrow> val \<Rightarrow> val" where
  "val_newton_iterate f fp 0 p = p"
| "val_newton_iterate f fp (Suc k) p = val_newton_iterate f fp k (val_newton_step f fp p)"

text \<open>
  A finite Python float, a row of finite Python floats, and a real function as a
  function that returns Python floats (NaN on an argument that is not finite).
\<close>

definition py :: "real \<Rightarrow> val" where
  "py r = (Py, Fin r)"

definition py_row :: "row \<Rightarrow> vrow" where
  "py_row r = (fst r, py (fst (snd r)), py (snd (snd r)))"

definition py_fn :: "(real \<Rightarrow> real) \<Rightarrow> val \<Rightarrow> val" where
  "py_fn g v = (Py, case snd v of Fin r \<Rightarrow> Fin (g r) | PInf \<Rightarrow> NaN | NInf \<Rightarrow> NaN | NaN \<Rightarrow> NaN)"

text \<open>
  \<open>f x = x - 4.0\<close> on any value, and a derivative that is \<open>0.0\<close> everywhere: as a
  Python float and as a numpy scalar.
\<close>

definition ex_line_val :: "val \<Rightarrow> val" where
  "ex_line_val v = val_sub v (py 4)"

definition ex_zero_py :: "val \<Rightarrow> val" where
  "ex_zero_py v = py 0"

definition ex_zero_np :: "val \<Rightarrow> val" where
  "ex_zero_np v = (Np, Fin 0)"

section \<open>Iterates and iteration counts\<close>

text \<open>
  The sequence \<^verbatim>\<open>steffensen\<close> walks along, as a function of the step number, and the
  number of loop-body entries recorded in a list of events.
\<close>

definition aitken_denominator :: "(real \<Rightarrow> real) \<Rightarrow> real \<Rightarrow> real" where
  "aitken_denominator f x = f (f x) - 2 * f x + x"

definition steffensen_step :: "(real \<Rightarrow> real) \<Rightarrow> real \<Rightarrow> real" where
  "steffensen_step f x = x - ((f x - x) ^ 2) / aitken_denominator f x"

primrec steffensen_iterate :: "(real \<Rightarrow> real) \<Rightarrow> nat \<Rightarrow> real \<Rightarrow> real" where
  "steffensen_iterate f 0 x = x"
| "steffensen_iterate f (Suc k) x = steffensen_iterate f k (steffensen_step f x)"

fun is_Enter_loop :: "'a event \<Rightarrow> bool" where
  "is_Enter_loop (Enter_loop i) = True"
| "is_Enter_loop e = False"

definition iterations :: "'a event list \<Rightarrow> nat" where
  "iterations es = length (filter is_Enter_loop es)"

text \<open>
  \<open>one_more s s'\<close>: from \<open>s\<close> to \<open>s'\<close> exactly one loop body was entered.
  \<open>within_budget n s out\<close>: the outcome \<open>out\<close> of a run started in \<open>s\<close> entered at most
  \<open>n\<close> loop bodies, and exactly \<open>n\<close> if it ended in the error of non-convergence.
\<close>

definition one_more :: "'a state \<Rightarrow> 'a state \<Rightarrow> bool" where
  "one_more s s' = (iterations (events s') = Suc (iterations (events s)))"

definition within_budget :: "nat \<Rightarrow> 'a state \<Rightarrow> (error + 'r) \<times> 'a state \<Rightarrow> bool" where
  "within_budget n s out =
     (iterations (events (snd out)) \<le> iterations (events s) + n \<and>
      (fst out = Inl did_not_converge \<longrightarrow>
         iterations (events (snd out)) = iterations (events s) + n))"

text \<open>
  The same state with the events \<open>pre\<close> of earlier calls in front of its own, and the
  events a call started in \<open>s\<close> has added when it ends in \<open>s'\<close>.
\<close>

definition after_events :: "'a event list \<Rightarrow> 'a state \<Rightarrow> 'a state" where
  "after_events pre s = s\<lparr>events := pre @ events s\<rparr>"

definition new_events :: "'a state \<Rightarrow> 'a state \<Rightarrow> 'a event list" where
  "new_events s s' = drop (length (events s)) (events s')"

section \<open>Sample inputs\<close>

definition s_init :: "'a state" where
  "s_init = \<lparr>resultados = [], events = []\<rparr>"

definition s_used :: "'a state" where
  "s_used = \<lparr>resultados = [(0, 3, 5), (1, 2, 0)], events = []\<rparr>"

definition ex_identity :: "real \<Rightarrow> real" where
  "ex_identity x = x"

definition ex_halve :: "real \<Rightarrow> real" where
  "ex_halve x = x / 2"

definition ex_succ :: "real \<Rightarrow> real" where
  "ex_succ x = x + 1"

definition ex_parabola :: "real \<Rightarrow> real" where
  "ex_parabola x = x ^ 2 - 4"

definition ex_parabola_prime :: "real \<Rightarrow> real" where
  "ex_parabola_prime x = 2 * x"

definition ex_no_root :: "real \<Rightarrow> real" where
  "ex_no_root x = x ^ 2 + 1"

definition ex_shifted :: "real \<Rightarrow> real" where
  "ex_shifted x = x ^ 2 - 4 + x"

definition ex_succ_vec :: "real list \<Rightarrow> real list" where
  "ex_succ_vec xs = map (\<lambda>x. x + 1) xs"

definition ex_halve_vec :: "real list \<Rightarrow> real list" where
  "ex_halve_vec xs = map (\<lambda>x. x / 2) xs"

definition ex_halve_in_place :: heap_fn where
  "ex_halve_in_place h a = (h[a := map (\<lambda>x. x / 2) (h ! a)], a)"

section \<open>Basic facts\<close>

lemma range_py_nonpos: "n \<le> 0 \<Longrightarrow> range_py n = []"
  by (simp add: range_py_def)

lemma range_py_pos: "0 < n \<Longrightarrow> range_py n = 0 # [1..n - 1]"
  by (simp add: range_py_def upto_rec1)

lemma length_range_py: "length (range_py n) = nat n"
  by (simp add: range_py_def)

lemma events_emit: "events (emit e s) = events s @ [e]"
  by (simp add: emit_def)

lemma events_add_row: "events (add_row r s) = events s"
  by (simp add: add_row_def)

lemma events_clear_rows: "events (clear_rows s) = events s"
  by (simp add: clear_rows_def)

lemma resultados_emit: "resultados (emit e s) = resultados s"
  by (simp add: emit_def)

lemma resultados_add_row: "resultados (add_row r s) = resultados s @ [r]"
  by (simp add: add_row_def)

lemma resultados_clear_rows: "resultados (clear_rows s) = []"
  by (simp add: clear_rows_def)

lemmas state_simps =
  events_emit events_add_row events_clear_rows
  resultados_emit resultados_add_row resultados_clear_rows

section \<open>An exhausted budget\<close>

text \<open>
  C5 (as amended). With \<open>max_iter = 0\<close> every solver raises the \<open>ValueError\<close> of
  non-convergence and no loop body is entered. \<^verbatim>\<open>fixed_point_iteration\<close>,
  \<^verbatim>\<open>Newton_Raphson\<close> and \<^verbatim>\<open>steffensen\<close> record no event at all, so the caller's
  functions are never invoked. \<^verbatim>\<open>Secante\<close> evaluates \<open>f\<close> at \<open>p_0\<close> and at \<open>p_1\<close>
  before its loop, once each, and leaves the two seed rows in the table.
\<close>

theorem zero_budget_raises_before_loop:
  "fixed_point_iteration g x0 tol 0 sv = (Inl did_not_converge, sv) \<and>
   fst (Newton_Raphson f fp p_0 tol 0 s) = Inl did_not_converge \<and>
   events (snd (Newton_Raphson f fp p_0 tol 0 s)) = events s \<and>
   steffensen f p_0 tol 0 s = (Inl did_not_converge, s) \<and>
   fst (Secante f p_0 p_1 tol 0 s) = Inl did_not_converge \<and>
   events (snd (Secante f p_0 p_1 tol 0 s)) = events s @ [Call_f p_0, Call_f p_1] \<and>
   resultados (snd (Secante f p_0 p_1 tol 0 s)) = [(0, p_0, f p_0), (1, p_1, f p_1)]"
  by (simp add: fixed_point_iteration_def Newton_Raphson_def steffensen_def Secante_def
      range_py_nonpos state_simps Let_def)

theorem zero_budget_raises_before_loop_witness:
  "fixed_point_iteration ex_succ_vec [1] (1 / 1000000) 0 s_init = (Inl did_not_converge, s_init) \<and>
   fst (Newton_Raphson ex_parabola ex_parabola_prime 3 (1 / 1000000) 0 s_used) = Inl did_not_converge \<and>
   events (snd (Newton_Raphson ex_parabola ex_parabola_prime 3 (1 / 1000000) 0 s_used)) = [] \<and>
   steffensen ex_parabola 3 (1 / 1000000) 0 s_used = (Inl did_not_converge, s_used) \<and>
   fst (Secante ex_parabola 3 4 (1 / 1000000) 0 s_used) = Inl did_not_converge \<and>
   events (snd (Secante ex_parabola 3 4 (1 / 1000000) 0 s_used)) = [Call_f 3, Call_f 4] \<and>
   resultados (snd (Secante ex_parabola 3 4 (1 / 1000000) 0 s_used)) = [(0, 3, 5), (1, 4, 12)]"
  using zero_budget_raises_before_loop
    [of ex_succ_vec "[1]" "1 / 1000000" s_init ex_parabola ex_parabola_prime 3 s_used 4]
  by (simp add: s_used_def ex_parabola_def)

text \<open>
  The claim as written fails for \<^verbatim>\<open>Secante\<close>: with \<open>N_0 = 0\<close> the function \<open>f\<close> has been
  called twice when the exception is raised.
\<close>

theorem Secante_zero_budget_calls_f:
  "fst (Secante ex_identity 1 2 (1 / 1000000) 0 s_init) = Inl did_not_converge \<and>
   events (snd (Secante ex_identity 1 2 (1 / 1000000) 0 s_init)) = [Call_f 1, Call_f 2] \<and>
   events (snd (Secante ex_identity 1 2 (1 / 1000000) 0 s_init)) \<noteq> events s_init"
  by (simp add: Secante_def range_py_nonpos state_simps Let_def s_init_def)

section \<open>A vanishing Aitken denominator in \<^verbatim>\<open>steffensen\<close>\<close>

text \<open>
  As long as neither test of the loop body fires, the loop walks along
  \<open>steffensen_iterate\<close>: after \<open>k\<close> such iterations the remaining indices are run from
  the \<open>k\<close>-th iterate.
\<close>

lemma steffensen_for_run:
  "k \<le> length is \<Longrightarrow>
   \<forall>j<k. \<not> \<bar>aitken_denominator f (steffensen_iterate f j x)\<bar> < tol \<and>
          aitken_denominator f (steffensen_iterate f j x) \<noteq> 0 \<and>
          \<not> \<bar>steffensen_iterate f (Suc j) x - steffensen_iterate f j x\<bar> < tol \<Longrightarrow>
   \<exists>s'. steffensen_for f tol is x s =
         steffensen_for f tol (drop k is) (steffensen_iterate f k x) s'"
proof (induction k arbitrary: "is" x s)
  case 0
  then show ?case by auto
next
  case (Suc k)
  from Suc.prems(1) obtain i rest where is_eq: "is = i # rest" and len: "k \<le> length rest"
    by (cases "is") auto
  from Suc.prems(2) have here:
    "\<not> \<bar>aitken_denominator f x\<bar> < tol" "aitken_denominator f x \<noteq> 0"
    "\<not> \<bar>steffensen_step f x - x\<bar> < tol"
    by force+
  from Suc.prems(2) have later:
    "\<forall>j<k. \<not> \<bar>aitken_denominator f (steffensen_iterate f j (steffensen_step f x))\<bar> < tol \<and>
          aitken_denominator f (steffensen_iterate f j (steffensen_step f x)) \<noteq> 0 \<and>
          \<not> \<bar>steffensen_iterate f (Suc j) (steffensen_step f x)
              - steffensen_iterate f j (steffensen_step f x)\<bar> < tol"
    by (simp add: All_less_Suc2)
  from Suc.IH [OF len later] obtain s' where
    "steffensen_for f tol rest (steffensen_step f x)
       (emit (Call_f (f x)) (emit (Call_f x) (emit (Enter_loop i) s))) =
     steffensen_for f tol (drop k rest) (steffensen_iterate f k (steffensen_step f x)) s'"
    by blast
  with here show ?case
    by (auto simp add: is_eq Let_def aitken_denominator_def steffensen_step_def)
qed

lemma steffensen_for_small_denominator:
  "\<bar>aitken_denominator f x\<bar> < tol \<Longrightarrow>
   steffensen_for f tol (i # is) x s =
     (Inr None, emit (Print_text denominator_warning)
        (emit (Call_f (f x)) (emit (Call_f x) (emit (Enter_loop i) s))))"
  by (simp add: Let_def aitken_denominator_def)

text \<open>
  C3 (as amended). If the loop of \<^verbatim>\<open>steffensen\<close> reaches, within its budget, an iterate
  whose Aitken denominator \<open>d = f (f x) - 2 * f x + x\<close> has \<open>|d| < tol\<close>, the call
  prints its warning and returns \<^verbatim>\<open>None\<close>: the result is \<open>Inr None\<close>, a normal return
  and no exception.
\<close>

theorem steffensen_small_denominator_returns_None:
  assumes "int k < max_iter"
    and "\<forall>j<k. \<not> \<bar>aitken_denominator f (steffensen_iterate f j x0)\<bar> < tol \<and>
          \<not> \<bar>steffensen_iterate f (Suc j) x0 - steffensen_iterate f j x0\<bar> < tol"
    and "\<bar>aitken_denominator f (steffensen_iterate f k x0)\<bar> < tol"
  shows "fst (steffensen f x0 tol max_iter s) = Inr None \<and>
         last (events (snd (steffensen f x0 tol max_iter s))) = Print_text denominator_warning"
proof -
  from assms(3) have "0 < tol" by linarith
  with assms(2) have run:
    "\<forall>j<k. \<not> \<bar>aitken_denominator f (steffensen_iterate f j x0)\<bar> < tol \<and>
          aitken_denominator f (steffensen_iterate f j x0) \<noteq> 0 \<and>
          \<not> \<bar>steffensen_iterate f (Suc j) x0 - steffensen_iterate f j x0\<bar> < tol"
    by fastforce
  from assms(1) have len: "k < length (range_py max_iter)"
    by (simp add: length_range_py)
  then obtain i rest where rest: "drop k (range_py max_iter) = i # rest"
    by (cases "drop k (range_py max_iter)") auto
  from len have "k \<le> length (range_py max_iter)" by simp
  from steffensen_for_run [OF this run] obtain s' where
    "steffensen_for f tol (range_py max_iter) x0 s =
     steffensen_for f tol (i # rest) (steffensen_iterate f k x0) s'"
    unfolding rest by blast
  with assms(3) show ?thesis
    by (simp add: steffensen_def steffensen_for_small_denominator state_simps del: steffensen_for.simps)
qed

text \<open>
  The theorem at \<open>f x = x / 2\<close> from \<open>x0 = 4\<close>: the first step lands on the fixed point
  \<open>0\<close>, where the denominator vanishes.
\<close>

theorem steffensen_small_denominator_returns_None_witness:
  "fst (steffensen ex_halve 4 (1 / 2) 100 s_init) = Inr None \<and>
   last (events (snd (steffensen ex_halve 4 (1 / 2) 100 s_init))) = Print_text denominator_warning"
  using steffensen_small_denominator_returns_None [of 1 100 ex_halve 4 "1 / 2" s_init]
  by (simp add: aitken_denominator_def steffensen_step_def ex_halve_def)

text \<open>
  The claim as written fails: for \<open>f x = x + 1\<close> the denominator is \<open>0\<close> in the first
  iteration, and the call returns \<^verbatim>\<open>None\<close> instead of raising.
\<close>

theorem steffensen_returns_None_not_error:
  "steffensen ex_succ 0 (1 / 1000000) 100 s_init =
     (Inr None, \<lparr>resultados = [], events = [Enter_loop 0, Call_f 0, Call_f 1, Print_text denominator_warning]\<rparr>)"
  by (simp add: steffensen_def range_py_pos Let_def ex_succ_def s_init_def emit_def)

section \<open>A zero derivative in \<^verbatim>\<open>Newton_Raphson\<close>\<close>

text \<open>
  As long as the division does not raise and the convergence test fails, the loop
  walks along \<open>val_newton_iterate\<close>.
\<close>

lemma Newton_val_for_run:
  "k \<le> length is \<Longrightarrow>
   \<forall>j<k. \<not> zero_division (f (val_newton_iterate f fp j p)) (fp (val_newton_iterate f fp j p)) \<and>
          \<not> val_less (val_abs (val_sub (val_newton_iterate f fp (Suc j) p)
                                       (val_newton_iterate f fp j p))) TOL \<Longrightarrow>
   \<exists>tbl'. Newton_val_for f fp TOL is p tbl =
         Newton_val_for f fp TOL (drop k is) (val_newton_iterate f fp k p) tbl'"
proof (induction k arbitrary: "is" p tbl)
  case 0
  then show ?case by auto
next
  case (Suc k)
  from Suc.prems(1) obtain i rest where is_eq: "is = i # rest" and len: "k \<le> length rest"
    by (cases "is") auto
  from Suc.prems(2) have here: "\<not> zero_division (f p) (fp p)"
    "\<not> val_less (val_abs (val_sub (val_newton_step f fp p) p)) TOL"
    by force+
  from Suc.prems(2) have later:
    "\<forall>j<k. \<not> zero_division (f (val_newton_iterate f fp j (val_newton_step f fp p)))
                            (fp (val_newton_iterate f fp j (val_newton_step f fp p))) \<and>
          \<not> val_less (val_abs (val_sub (val_newton_iterate f fp (Suc j) (val_newton_step f fp p))
                                       (val_newton_iterate f fp j (val_newton_step f fp p)))) TOL"
    by (simp add: All_less_Suc2)
  from Suc.IH [OF len later] obtain tbl' where
    "Newton_val_for f fp TOL rest (val_newton_step f fp p)
       (tbl @ [(i, val_newton_step f fp p, f (val_newton_step f fp p))]) =
     Newton_val_for f fp TOL (drop k rest)
       (val_newton_iterate f fp k (val_newton_step f fp p)) tbl'"
    by blast
  with here show ?case
    by (auto simp add: is_eq Let_def val_div_def val_newton_step_def)
qed

lemma Newton_val_for_zero_division:
  "zero_division (f p) (fp p) \<Longrightarrow>
   Newton_val_for f fp TOL (i # is) p tbl = (Inl ZeroDivisionError, tbl)"
  by (simp add: val_div_def)

text \<open>
  C4 (as amended). If the loop of \<^verbatim>\<open>Newton_Raphson\<close> reaches, within its budget, an iterate
  at which \<open>fp\<close> is exactly zero and the values of \<open>f\<close> and \<open>fp\<close> there are Python floats,
  the division of line 84 raises and the call fails with Python's \<open>ZeroDivisionError\<close>;
  no quotient, and so no infinite or NaN value, is computed. With an \<open>fp\<close> that returns
  the Python float \<open>0.0\<close> everywhere, an \<open>f\<close> that returns Python floats and a budget of
  at least one iteration, this happens in the first iteration, before any row is added.
\<close>

theorem Newton_zero_derivative_of_python_floats_raises:
  "(int k < N_0 \<and>
    (\<forall>j<k. \<not> zero_division (f (val_newton_iterate f fp j p_0))
                           (fp (val_newton_iterate f fp j p_0)) \<and>
           \<not> val_less (val_abs (val_sub (val_newton_iterate f fp (Suc j) p_0)
                                        (val_newton_iterate f fp j p_0))) TOL) \<and>
    snd (fp (val_newton_iterate f fp k p_0)) = Fin 0 \<and>
    fst (fp (val_newton_iterate f fp k p_0)) = Py \<and>
    fst (f (val_newton_iterate f fp k p_0)) = Py
    \<longrightarrow> fst (Newton_Raphson_val f fp p_0 TOL N_0) = Inl ZeroDivisionError) \<and>
   (0 < N_0 \<and> (\<forall>x. fp x = py 0) \<and> (\<forall>x. fst (f x) = Py)
    \<longrightarrow> Newton_Raphson_val f fp p_0 TOL N_0 = (Inl ZeroDivisionError, []))"
proof (intro conjI impI)
  assume a: "int k < N_0 \<and>
    (\<forall>j<k. \<not> zero_division (f (val_newton_iterate f fp j p_0))
                           (fp (val_newton_iterate f fp j p_0)) \<and>
           \<not> val_less (val_abs (val_sub (val_newton_iterate f fp (Suc j) p_0)
                                        (val_newton_iterate f fp j p_0))) TOL) \<and>
    snd (fp (val_newton_iterate f fp k p_0)) = Fin 0 \<and>
    fst (fp (val_newton_iterate f fp k p_0)) = Py \<and>
    fst (f (val_newton_iterate f fp k p_0)) = Py"
  then have len: "k < length (range_py N_0)"
    by (simp add: length_range_py zless_nat_eq_int_zless)
  then obtain i rest where rest: "drop k (range_py N_0) = i # rest"
    by (cases "drop k (range_py N_0)") auto
  from len have "k \<le> length (range_py N_0)" by simp
  from Newton_val_for_run [OF this, of f fp p_0 TOL "[]"] a obtain tbl' where
    "Newton_val_for f fp TOL (range_py N_0) p_0 [] =
     Newton_val_for f fp TOL (i # rest) (val_newton_iterate f fp k p_0) tbl'"
    unfolding rest by blast
  moreover from a have
    "zero_division (f (val_newton_iterate f fp k p_0)) (fp (val_newton_iterate f fp k p_0))"
    by (simp add: zero_division_def)
  ultimately show "fst (Newton_Raphson_val f fp p_0 TOL N_0) = Inl ZeroDivisionError"
    by (simp add: Newton_Raphson_val_def Newton_val_for_zero_division del: Newton_val_for.simps)
next
  assume b: "0 < N_0 \<and> (\<forall>x. fp x = py 0) \<and> (\<forall>x. fst (f x) = Py)"
  then have "fp p_0 = py 0" "fst (f p_0) = Py"
    by blast+
  then have "zero_division (f p_0) (fp p_0)"
    by (simp add: zero_division_def py_def)
  with b show "Newton_Raphson_val f fp p_0 TOL N_0 = (Inl ZeroDivisionError, [])"
    by (simp add: Newton_Raphson_val_def range_py_pos Newton_val_for_zero_division
        del: Newton_val_for.simps)
qed

text \<open>
  The theorem at \<open>f x = x\<^sup>2 + 1\<close>, \<open>fp x = 2 * x\<close> from \<open>p_0 = 1.0\<close> (the first step lands
  on \<open>0.0\<close>), and at \<open>fp x = 0.0\<close>, with the rules that evaluate the operations on values.
\<close>

lemmas val_simps =
  val_div_def zero_division_def val_quot_def val_sub_def val_abs_def val_less_def join_def
  py_def py_fn_def val_newton_step_def

theorem Newton_zero_derivative_of_python_floats_raises_witness:
  "fst (Newton_Raphson_val (py_fn ex_no_root) (py_fn ex_parabola_prime) (py 1) (py (1 / 1000000)) 10)
     = Inl ZeroDivisionError \<and>
   Newton_Raphson_val (py_fn ex_parabola) ex_zero_py (py 3) (py (1 / 1000000)) 10
     = (Inl ZeroDivisionError, [])"
  using Newton_zero_derivative_of_python_floats_raises
      [of 1 10 "py_fn ex_no_root" "py_fn ex_parabola_prime" "py 1" "py (1 / 1000000)"]
    Newton_zero_derivative_of_python_floats_raises
      [of 0 10 "py_fn ex_parabola" ex_zero_py "py 3" "py (1 / 1000000)"]
  by (simp add: val_simps ex_no_root_def ex_parabola_prime_def ex_zero_py_def)

text \<open>
  The claim as written fails when the derivative is a numpy scalar. For \<open>f x = x - 4.0\<close>
  and \<open>fp x = np.float64(0.0)\<close> from \<open>p_0 = 3.0\<close> with a budget of three iterations, the
  derivative is exactly zero at every iterate and no division raises: the iterates are
  \<open>inf\<close>, \<open>nan\<close>, \<open>nan\<close>, they are entered in the table, and the call ends in the error
  of non-convergence.
\<close>

theorem Newton_numpy_zero_derivative_runs_on:
  "snd (ex_zero_np (py 3)) = Fin 0 \<and>
   Newton_Raphson_val ex_line_val ex_zero_np (py 3) (py (1 / 1000000)) 3 =
     (Inl did_not_converge,
      [(0, (Np, PInf), (Np, PInf)), (1, (Np, NaN), (Np, NaN)), (2, (Np, NaN), (Np, NaN))])"
  by (simp add: Newton_Raphson_val_def range_py_pos upto_rec1 [of 1] Let_def val_simps
      ex_line_val_def ex_zero_np_def)

text \<open>
  On functions that return finite Python floats the run on values is the run of
  \<^verbatim>\<open>Newton_Raphson\<close> of the first sections: same result or exception, same rows. The test
  \<open>fp p_0 = 0\<close> there is the division of two Python floats.
\<close>

lemma val_sub_py: "val_sub (py a) (py b) = py (a - b)"
  by (simp add: val_sub_def py_def join_def)

lemma val_abs_py: "val_abs (py a) = py \<bar>a\<bar>"
  by (simp add: val_abs_def py_def)

lemma val_less_py: "val_less (py a) (py b) = (a < b)"
  by (simp add: val_less_def py_def)

lemma val_div_py:
  "val_div (py a) (py b) = (if b = 0 then Inl ZeroDivisionError else Inr (py (a / b)))"
  by (simp add: val_div_def zero_division_def val_quot_def py_def join_def)

lemma py_fn_py: "py_fn g (py a) = py (g a)"
  by (simp add: py_fn_def py_def)

lemmas py_simps = val_sub_py val_abs_py val_less_py val_div_py py_fn_py

lemma report_python_floats:
  "(case fst (report p q s) of Inl e \<Rightarrow> Inl e | Inr r \<Rightarrow> Inr (py r)) =
     (if \<bar>p\<bar> = 0 then Inl ZeroDivisionError else Inr (py p)) \<and>
   resultados (snd (report p q s)) = resultados s"
  by (simp add: report_def Let_def state_simps)

lemma Newton_val_for_python_floats:
  "Newton_val_for (py_fn g) (py_fn gp) (py TOL) is (py p) (map py_row (resultados s)) =
     (case fst (Newton_for g gp TOL is p s) of Inl e \<Rightarrow> Inl e | Inr r \<Rightarrow> Inr (py r),
      map py_row (resultados (snd (Newton_for g gp TOL is p s))))"
proof (induction "is" arbitrary: p s)
  case Nil
  show ?case by simp
next
  case (Cons i rest)
  define p' where "p' = p - g p / gp p"
  define s1 where "s1 = emit (Call_fp p) (emit (Call_f p) (emit (Enter_loop i) s))"
  define s2 where "s2 = add_row (i, p', g p') (emit (Call_f p') s1)"
  have tbl: "map py_row (resultados s) @ [(i, py p', py (g p'))] = map py_row (resultados s2)"
    by (simp add: s2_def s1_def state_simps py_row_def)
  consider (zero) "gp p = 0"
    | (conv) "gp p \<noteq> 0" "\<bar>p' - p\<bar> < TOL"
    | (cont) "gp p \<noteq> 0" "\<not> \<bar>p' - p\<bar> < TOL"
    by blast
  then show ?case
  proof cases
    case zero
    then have "Newton_for g gp TOL (i # rest) p s = (Inl ZeroDivisionError, s1)"
      "Newton_val_for (py_fn g) (py_fn gp) (py TOL) (i # rest) (py p) (map py_row (resultados s))
         = (Inl ZeroDivisionError, map py_row (resultados s))"
      by (simp_all add: s1_def py_simps)
    then show ?thesis
      by (simp add: s1_def state_simps del: Newton_for.simps Newton_val_for.simps)
  next
    case conv
    then have a: "Newton_for g gp TOL (i # rest) p s = report p' p s2"
      by (simp add: Let_def p'_def s1_def s2_def)
    have b: "Newton_val_for (py_fn g) (py_fn gp) (py TOL) (i # rest) (py p)
          (map py_row (resultados s))
         = (if \<bar>p'\<bar> = 0 then Inl ZeroDivisionError else Inr (py p'), map py_row (resultados s2))"
    proof (cases "p' = 0")
      case True
      with conv tbl show ?thesis
        by (simp add: py_simps Let_def p'_def [symmetric])
    next
      case False
      with conv tbl show ?thesis
        by (simp add: py_simps Let_def p'_def [symmetric])
    qed
    from a b report_python_floats [of p' p s2] show ?thesis
      by (simp del: Newton_for.simps Newton_val_for.simps)
  next
    case cont
    then have a: "Newton_for g gp TOL (i # rest) p s = Newton_for g gp TOL rest p' s2"
      by (simp add: Let_def p'_def s1_def s2_def)
    from cont have b: "Newton_val_for (py_fn g) (py_fn gp) (py TOL) (i # rest) (py p)
          (map py_row (resultados s))
         = Newton_val_for (py_fn g) (py_fn gp) (py TOL) rest (py p') (map py_row (resultados s2))"
      by (simp add: py_simps Let_def p'_def [symmetric] tbl)
    from a b Cons.IH [of p' s2] show ?thesis
      by (simp only:)
  qed
qed

lemma Newton_Raphson_val_python_floats:
  "Newton_Raphson_val (py_fn g) (py_fn gp) (py p_0) (py TOL) N_0 =
     (case fst (Newton_Raphson g gp p_0 TOL N_0 s) of Inl e \<Rightarrow> Inl e | Inr r \<Rightarrow> Inr (py r),
      map py_row (resultados (snd (Newton_Raphson g gp p_0 TOL N_0 s))))"
  using Newton_val_for_python_floats [of g gp TOL "range_py N_0" p_0 "clear_rows s"]
  by (simp add: Newton_Raphson_val_def Newton_Raphson_def state_simps)

section \<open>What \<^verbatim>\<open>fixed_point_iteration\<close> returns\<close>

lemma fixed_point_for_returns:
  "fst (fixed_point_for f tol is x s) = Inr r \<Longrightarrow>
   \<exists>k<length is. r = f ((f ^^ k) x) \<and> allclose r ((f ^^ k) x) tol = Inr True"
proof (induction "is" arbitrary: x s)
  case Nil
  then show ?case by simp
next
  case (Cons i rest)
  show ?case
  proof (cases "allclose (f x) x tol")
    case (Inl e)
    with Cons.prems show ?thesis by (simp add: Let_def)
  next
    case (Inr close)
    show ?thesis
    proof (cases close)
      case True
      with Inr Cons.prems have "r = f x" by (simp add: Let_def)
      with Inr True have "r = f ((f ^^ 0) x) \<and> allclose r ((f ^^ 0) x) tol = Inr True"
        by simp
      then show ?thesis by blast
    next
      case False
      with Inr Cons.prems have
        "fst (fixed_point_for f tol rest (f x) (emit (Call_f x) (emit (Enter_loop i) s))) = Inr r"
        by (simp add: Let_def)
      from Cons.IH [OF this] obtain k where
        k: "k < length rest" "r = f ((f ^^ k) (f x))" "allclose r ((f ^^ k) (f x)) tol = Inr True"
        by blast
      then have "Suc k < length (i # rest) \<and> r = f ((f ^^ Suc k) x) \<and>
                 allclose r ((f ^^ Suc k) x) tol = Inr True"
        by (simp add: funpow_swap1)
      then show ?thesis by blast
    qed
  qed
qed

text \<open>
  C10. Whenever \<^verbatim>\<open>fixed_point_iteration\<close> returns \<open>r\<close>, there is a step \<open>k\<close> within the
  budget such that \<open>r\<close> is \<open>f\<close> applied to the \<open>k\<close>-th iterate \<open>x\<close> and the closeness test
  between \<open>r\<close> and \<open>x\<close> passed: the fresh iterate is returned, not the previous one. In
  particular \<open>r\<close> lies in the image of \<open>f\<close>.
\<close>

theorem fixed_point_returns_fresh_iterate:
  assumes "fst (fixed_point_iteration f x0 tol max_iter s) = Inr r"
  shows "(\<exists>k. int k < max_iter \<and> r = f ((f ^^ k) x0) \<and> allclose r ((f ^^ k) x0) tol = Inr True) \<and>
         r \<in> range f"
proof -
  from assms fixed_point_for_returns [of f tol "range_py max_iter" x0 s r]
  obtain k where k: "k < nat max_iter" "r = f ((f ^^ k) x0)"
    "allclose r ((f ^^ k) x0) tol = Inr True"
    by (auto simp add: fixed_point_iteration_def length_range_py)
  from k(1) have "int k < max_iter" by linarith
  with k show ?thesis by blast
qed

text \<open>
  The theorem at \<open>f x = x / 2\<close> from \<open>[1]\<close> with \<open>tol = 1/4\<close>: the call returns \<open>[1/4]\<close>.
\<close>

theorem fixed_point_returns_fresh_iterate_witness:
  "fst (fixed_point_iteration ex_halve_vec [1] (1 / 4) 10 s_init) = Inr [1 / 4] \<and>
   (\<exists>k. int k < 10 \<and> [1 / 4] = ex_halve_vec ((ex_halve_vec ^^ k) [1]) \<and>
        allclose [1 / 4] ((ex_halve_vec ^^ k) [1]) (1 / 4) = Inr True) \<and>
   [1 / 4] \<in> range ex_halve_vec"
proof -
  have run: "fst (fixed_point_iteration ex_halve_vec [1] (1 / 4) 10 s_init) = Inr [1 / 4]"
    by (simp add: fixed_point_iteration_def range_py_pos upto_rec1 ex_halve_vec_def allclose_def
        broadcast_def isclose_def rtol_def Let_def)
  from fixed_point_returns_fresh_iterate [OF run] run show ?thesis by blast
qed

text \<open>
  C1, at a failing input. For \<open>f x = x + 1\<close>, \<open>x0 = [1000000]\<close>, \<open>tol = 1e-6\<close> the first
  iterate differs from \<open>x0\<close> by \<open>1\<close>, far more than \<open>tol\<close>, and still the call returns it
  in the first iteration: the default relative term \<open>rtol * |x|\<close> of \<^verbatim>\<open>np.allclose\<close> is
  \<open>10\<close> here. The absolute test of the specification rejects the pair.
\<close>

theorem fixed_point_accepts_relative_closeness:
  "fst (fixed_point_iteration ex_succ_vec [1000000] (1 / 1000000) 1000 s_init) = Inr [1000001] \<and>
   events (snd (fixed_point_iteration ex_succ_vec [1000000] (1 / 1000000) 1000 s_init)) =
     [Enter_loop 0, Call_f [1000000]] \<and>
   \<not> spec_close [1000001] [1000000] (1 / 1000000)"
  by (simp add: fixed_point_iteration_def range_py_pos ex_succ_vec_def allclose_def
        broadcast_def isclose_def rtol_def Let_def spec_close_def s_init_def emit_def)

section \<open>The iteration budget\<close>

lemma iterations_emit:
  "iterations (events (emit e s)) = iterations (events s) + (if is_Enter_loop e then 1 else 0)"
  by (simp add: iterations_def emit_def)

lemma iterations_add_row: "iterations (events (add_row r s)) = iterations (events s)"
  by (simp add: add_row_def)

lemma iterations_clear_rows: "iterations (events (clear_rows s)) = iterations (events s)"
  by (simp add: clear_rows_def)

lemma report_no_iteration:
  "iterations (events (snd (report p q s))) = iterations (events s) \<and>
   fst (report p q s) \<noteq> Inl did_not_converge"
  by (simp add: report_def Let_def iterations_emit did_not_converge_def)

lemma other_errors [simp]:
  "ZeroDivisionError \<noteq> did_not_converge" "could_not_broadcast \<noteq> did_not_converge"
  by (simp_all add: did_not_converge_def could_not_broadcast_def)

lemmas iterations_simps = iterations_emit iterations_add_row iterations_clear_rows

text \<open>One entry into a loop body either ends the call or hands over to the remaining indices.\<close>

lemma fixed_point_for_body:
  "(fst (fixed_point_for f tol (i # is) x s) \<noteq> Inl did_not_converge \<and>
      one_more s (snd (fixed_point_for f tol (i # is) x s))) \<or>
   (\<exists>x' s'. fixed_point_for f tol (i # is) x s = fixed_point_for f tol is x' s' \<and> one_more s s')"
proof (cases "allclose (f x) x tol")
  case (Inl e)
  then have "e = could_not_broadcast"
    by (simp add: allclose_def split: option.splits)
  with Inl show ?thesis
    by (simp add: Let_def one_more_def iterations_simps)
next
  case (Inr close)
  show ?thesis
  proof (cases close)
    case True
    with Inr show ?thesis
      by (simp add: Let_def one_more_def iterations_simps)
  next
    case False
    with Inr have "fixed_point_for f tol (i # is) x s =
        fixed_point_for f tol is (f x) (emit (Call_f x) (emit (Enter_loop i) s))"
      by (simp add: Let_def)
    moreover have "one_more s (emit (Call_f x) (emit (Enter_loop i) s))"
      by (simp add: one_more_def iterations_simps)
    ultimately show ?thesis by blast
  qed
qed

lemma Newton_for_body:
  "(fst (Newton_for f fp TOL (i # is) p s) \<noteq> Inl did_not_converge \<and>
      one_more s (snd (Newton_for f fp TOL (i # is) p s))) \<or>
   (\<exists>p' s'. Newton_for f fp TOL (i # is) p s = Newton_for f fp TOL is p' s' \<and> one_more s s')"
proof (cases "fp p = 0 \<or> \<bar>p - f p / fp p - p\<bar> < TOL")
  case True
  then show ?thesis
    by (auto simp add: Let_def one_more_def iterations_simps report_no_iteration)
next
  case False
  then have "Newton_for f fp TOL (i # is) p s =
      Newton_for f fp TOL is (p - f p / fp p)
        (add_row (i, p - f p / fp p, f (p - f p / fp p))
          (emit (Call_f (p - f p / fp p))
            (emit (Call_fp p) (emit (Call_f p) (emit (Enter_loop i) s)))))"
    by (simp add: Let_def)
  moreover have "one_more s
        (add_row (i, p - f p / fp p, f (p - f p / fp p))
          (emit (Call_f (p - f p / fp p))
            (emit (Call_fp p) (emit (Call_f p) (emit (Enter_loop i) s)))))"
    by (simp add: one_more_def iterations_simps)
  ultimately show ?thesis by blast
qed

lemma Secante_for_body:
  "(fst (Secante_for f TOL (i # is) p_0 q_0 p_1 q_1 s) \<noteq> Inl did_not_converge \<and>
      one_more s (snd (Secante_for f TOL (i # is) p_0 q_0 p_1 q_1 s))) \<or>
   (\<exists>a b c d s'. Secante_for f TOL (i # is) p_0 q_0 p_1 q_1 s = Secante_for f TOL is a b c d s' \<and>
      one_more s s')"
proof (cases "q_1 - q_0 = 0 \<or> \<bar>p_1 - q_1 * (p_1 - p_0) / (q_1 - q_0) - p_1\<bar> < TOL")
  case True
  then show ?thesis
    by (auto simp add: Let_def one_more_def iterations_simps report_no_iteration)
next
  case False
  define p where "p = p_1 - q_1 * (p_1 - p_0) / (q_1 - q_0)"
  from False have "Secante_for f TOL (i # is) p_0 q_0 p_1 q_1 s =
      Secante_for f TOL is p_1 q_1 p (f p)
        (emit (Call_f p) (add_row (i, p, f p) (emit (Call_f p) (emit (Enter_loop i) s))))"
    by (simp add: Let_def p_def)
  moreover have "one_more s
        (emit (Call_f p) (add_row (i, p, f p) (emit (Call_f p) (emit (Enter_loop i) s))))"
    by (simp add: one_more_def iterations_simps)
  ultimately show ?thesis by blast
qed

lemma steffensen_for_body:
  "(fst (steffensen_for f tol (i # is) x s) \<noteq> Inl did_not_converge \<and>
      one_more s (snd (steffensen_for f tol (i # is) x s))) \<or>
   (\<exists>x' s'. steffensen_for f tol (i # is) x s = steffensen_for f tol is x' s' \<and> one_more s s')"
proof (cases "\<bar>aitken_denominator f x\<bar> < tol \<or> aitken_denominator f x = 0 \<or>
              \<bar>steffensen_step f x - x\<bar> < tol")
  case True
  then show ?thesis
    by (auto simp add: Let_def one_more_def iterations_simps aitken_denominator_def
        steffensen_step_def)
next
  case False
  then have "steffensen_for f tol (i # is) x s =
      steffensen_for f tol is (steffensen_step f x)
        (emit (Call_f (f x)) (emit (Call_f x) (emit (Enter_loop i) s)))"
    by (simp add: Let_def aitken_denominator_def steffensen_step_def)
  moreover have "one_more s (emit (Call_f (f x)) (emit (Call_f x) (emit (Enter_loop i) s)))"
    by (simp add: one_more_def iterations_simps)
  ultimately show ?thesis by blast
qed

lemma within_budget_Nil: "within_budget 0 s (r, s)"
  by (simp add: within_budget_def)

lemma within_budget_stop:
  "fst out \<noteq> Inl did_not_converge \<Longrightarrow> one_more s (snd out) \<Longrightarrow> within_budget (Suc n) s out"
  by (simp add: within_budget_def one_more_def)

lemma within_budget_continue:
  "one_more s s' \<Longrightarrow> within_budget n s' out \<Longrightarrow> within_budget (Suc n) s out"
  by (simp add: within_budget_def one_more_def)

lemma fixed_point_for_budget:
  "within_budget (length is) s (fixed_point_for f tol is x s)"
proof (induction "is" arbitrary: x s)
  case Nil
  show ?case by (simp add: within_budget_Nil)
next
  case (Cons i rest)
  from fixed_point_for_body [of f tol i rest x s] show ?case
  proof
    assume "fst (fixed_point_for f tol (i # rest) x s) \<noteq> Inl did_not_converge \<and>
      one_more s (snd (fixed_point_for f tol (i # rest) x s))"
    then show ?thesis by (simp add: within_budget_stop del: fixed_point_for.simps)
  next
    assume "\<exists>x' s'. fixed_point_for f tol (i # rest) x s = fixed_point_for f tol rest x' s' \<and>
      one_more s s'"
    then obtain x' s' where
      eq: "fixed_point_for f tol (i # rest) x s = fixed_point_for f tol rest x' s'"
      and more: "one_more s s'"
      by blast
    from within_budget_continue [OF more Cons.IH [of s' x']] show ?thesis
      by (simp add: eq del: fixed_point_for.simps)
  qed
qed

lemma Newton_for_budget:
  "within_budget (length is) s (Newton_for f fp TOL is p s)"
proof (induction "is" arbitrary: p s)
  case Nil
  show ?case by (simp add: within_budget_Nil)
next
  case (Cons i rest)
  from Newton_for_body [of f fp TOL i rest p s] show ?case
  proof
    assume "fst (Newton_for f fp TOL (i # rest) p s) \<noteq> Inl did_not_converge \<and>
      one_more s (snd (Newton_for f fp TOL (i # rest) p s))"
    then show ?thesis by (simp add: within_budget_stop del: Newton_for.simps)
  next
    assume "\<exists>p' s'. Newton_for f fp TOL (i # rest) p s = Newton_for f fp TOL rest p' s' \<and>
      one_more s s'"
    then obtain p' s' where
      eq: "Newton_for f fp TOL (i # rest) p s = Newton_for f fp TOL rest p' s'"
      and more: "one_more s s'"
      by blast
    from within_budget_continue [OF more Cons.IH [of s' p']] show ?thesis
      by (simp add: eq del: Newton_for.simps)
  qed
qed

lemma Secante_for_budget:
  "within_budget (length is) s (Secante_for f TOL is p_0 q_0 p_1 q_1 s)"
proof (induction "is" arbitrary: p_0 q_0 p_1 q_1 s)
  case Nil
  show ?case by (simp add: within_budget_Nil)
next
  case (Cons i rest)
  from Secante_for_body [of f TOL i rest p_0 q_0 p_1 q_1 s] show ?case
  proof
    assume "fst (Secante_for f TOL (i # rest) p_0 q_0 p_1 q_1 s) \<noteq> Inl did_not_converge \<and>
      one_more s (snd (Secante_for f TOL (i # rest) p_0 q_0 p_1 q_1 s))"
    then show ?thesis by (simp add: within_budget_stop del: Secante_for.simps)
  next
    assume "\<exists>a b c d s'. Secante_for f TOL (i # rest) p_0 q_0 p_1 q_1 s =
        Secante_for f TOL rest a b c d s' \<and> one_more s s'"
    then obtain a b c d s' where
      eq: "Secante_for f TOL (i # rest) p_0 q_0 p_1 q_1 s = Secante_for f TOL rest a b c d s'"
      and more: "one_more s s'"
      by blast
    from within_budget_continue [OF more Cons.IH [of s' a b c d]] show ?thesis
      by (simp add: eq del: Secante_for.simps)
  qed
qed

lemma steffensen_for_budget:
  "within_budget (length is) s (steffensen_for f tol is x s)"
proof (induction "is" arbitrary: x s)
  case Nil
  show ?case by (simp add: within_budget_Nil)
next
  case (Cons i rest)
  from steffensen_for_body [of f tol i rest x s] show ?case
  proof
    assume "fst (steffensen_for f tol (i # rest) x s) \<noteq> Inl did_not_converge \<and>
      one_more s (snd (steffensen_for f tol (i # rest) x s))"
    then show ?thesis by (simp add: within_budget_stop del: steffensen_for.simps)
  next
    assume "\<exists>x' s'. steffensen_for f tol (i # rest) x s = steffensen_for f tol rest x' s' \<and>
      one_more s s'"
    then obtain x' s' where
      eq: "steffensen_for f tol (i # rest) x s = steffensen_for f tol rest x' s'"
      and more: "one_more s s'"
      by blast
    from within_budget_continue [OF more Cons.IH [of s' x']] show ?thesis
      by (simp add: eq del: steffensen_for.simps)
  qed
qed

text \<open>
  C8. Every loop is a recursion over the finite list of indices \<^verbatim>\<open>range(max_iter)\<close>, so
  every call ends, with a value or an exception, once the calls of the caller's
  functions have returned. A call of any of the four solvers enters its loop body at
  most \<open>max_iter\<close> times (\<open>nat max_iter\<close>: not at all for a negative budget); a call that
  ends in the error of non-convergence has entered it exactly that often, so nothing
  but the budget cuts a run short that neither converges nor fails otherwise.
\<close>

theorem iterations_bounded_by_budget:
  "iterations (events (snd (fixed_point_iteration g x0 tol max_iter sv)))
     \<le> iterations (events sv) + nat max_iter \<and>
   iterations (events (snd (Newton_Raphson f fp p_0 tol max_iter s)))
     \<le> iterations (events s) + nat max_iter \<and>
   iterations (events (snd (Secante f p_0 p_1 tol max_iter s)))
     \<le> iterations (events s) + nat max_iter \<and>
   iterations (events (snd (steffensen f p_0 tol max_iter s)))
     \<le> iterations (events s) + nat max_iter \<and>
   (fst (fixed_point_iteration g x0 tol max_iter sv) = Inl did_not_converge \<longrightarrow>
      iterations (events (snd (fixed_point_iteration g x0 tol max_iter sv)))
        = iterations (events sv) + nat max_iter) \<and>
   (fst (Newton_Raphson f fp p_0 tol max_iter s) = Inl did_not_converge \<longrightarrow>
      iterations (events (snd (Newton_Raphson f fp p_0 tol max_iter s)))
        = iterations (events s) + nat max_iter) \<and>
   (fst (Secante f p_0 p_1 tol max_iter s) = Inl did_not_converge \<longrightarrow>
      iterations (events (snd (Secante f p_0 p_1 tol max_iter s)))
        = iterations (events s) + nat max_iter) \<and>
   (fst (steffensen f p_0 tol max_iter s) = Inl did_not_converge \<longrightarrow>
      iterations (events (snd (steffensen f p_0 tol max_iter s)))
        = iterations (events s) + nat max_iter)"
proof -
  have a: "within_budget (nat max_iter) sv (fixed_point_iteration g x0 tol max_iter sv)"
    using fixed_point_for_budget [of "range_py max_iter" sv g tol x0]
    by (simp add: fixed_point_iteration_def length_range_py)
  have b: "within_budget (nat max_iter) (clear_rows s) (Newton_Raphson f fp p_0 tol max_iter s)"
    using Newton_for_budget [of "range_py max_iter" "clear_rows s" f fp tol p_0]
    by (simp add: Newton_Raphson_def length_range_py)
  have c: "within_budget (nat max_iter)
      (add_row (1, p_1, f p_1) (add_row (0, p_0, f p_0)
        (emit (Call_f p_1) (emit (Call_f p_0) (clear_rows s)))))
      (Secante f p_0 p_1 tol max_iter s)"
    using Secante_for_budget [of "range_py max_iter" _ f tol p_0 "f p_0" p_1 "f p_1"]
    by (simp add: Secante_def length_range_py Let_def)
  have d: "within_budget (nat max_iter) s (steffensen f p_0 tol max_iter s)"
    using steffensen_for_budget [of "range_py max_iter" s f tol p_0]
    by (simp add: steffensen_def length_range_py)
  from a b c d show ?thesis
    by (simp add: within_budget_def iterations_simps)
qed

text \<open>
  Sample runs that exhaust a budget of two iterations, with the evaluation rules used
  for concrete runs here and below.
\<close>

lemmas eval_simps =
  fixed_point_iteration_def Newton_Raphson_def Secante_def steffensen_def
  range_py_pos upto_rec1 Let_def allclose_def broadcast_def isclose_def rtol_def report_def
  power2_eq_square

theorem iterations_bounded_by_budget_witness:
  "fst (fixed_point_iteration ex_succ_vec [1] (1 / 1000000) 2 s_init) = Inl did_not_converge \<and>
   iterations (events (snd (fixed_point_iteration ex_succ_vec [1] (1 / 1000000) 2 s_init))) = 2 \<and>
   fst (Newton_Raphson ex_parabola ex_parabola_prime 3 (1 / 1000000) 2 s_init) = Inl did_not_converge \<and>
   iterations (events (snd (Newton_Raphson ex_parabola ex_parabola_prime 3 (1 / 1000000) 2 s_init))) = 2 \<and>
   fst (Secante ex_parabola 3 4 (1 / 1000000) 2 s_init) = Inl did_not_converge \<and>
   iterations (events (snd (Secante ex_parabola 3 4 (1 / 1000000) 2 s_init))) = 2 \<and>
   fst (steffensen ex_parabola 3 (1 / 1000000) 2 s_init) = Inl did_not_converge \<and>
   iterations (events (snd (steffensen ex_parabola 3 (1 / 1000000) 2 s_init))) = 2"
proof -
  have a: "fst (fixed_point_iteration ex_succ_vec [1] (1 / 1000000) 2 s_init) = Inl did_not_converge"
    by (simp add: eval_simps ex_succ_vec_def)
  have b: "fst (Newton_Raphson ex_parabola ex_parabola_prime 3 (1 / 1000000) 2 s_init)
      = Inl did_not_converge"
    by (simp add: eval_simps ex_parabola_def ex_parabola_prime_def)
  have c: "fst (Secante ex_parabola 3 4 (1 / 1000000) 2 s_init) = Inl did_not_converge"
    by (simp add: eval_simps ex_parabola_def)
  have d: "fst (steffensen ex_parabola 3 (1 / 1000000) 2 s_init) = Inl did_not_converge"
    by (simp add: eval_simps ex_parabola_def)
  have e: "iterations (events (s_init :: real state)) = 0"
    "iterations (events (s_init :: real list state)) = 0"
    by (simp_all add: s_init_def iterations_def)
  from iterations_bounded_by_budget
    [of ex_succ_vec "[1]" "1 / 1000000" 2 s_init ex_parabola ex_parabola_prime 3 s_init 4]
    a b c d e
  show ?thesis by simp
qed

section \<open>Independence from earlier calls\<close>

text \<open>
  A run started after earlier events is the run started without them, with those
  events in front of its own; \<^verbatim>\<open>fixed_point_iteration\<close> and \<^verbatim>\<open>steffensen\<close> neither read
  nor write the table.
\<close>

lemma emit_after_events: "emit e (after_events pre s) = after_events pre (emit e s)"
  by (simp add: emit_def after_events_def)

lemma add_row_after_events: "add_row r (after_events pre s) = after_events pre (add_row r s)"
  by (simp add: add_row_def after_events_def)

lemma clear_rows_after_events: "clear_rows (after_events pre s) = after_events pre (clear_rows s)"
  by (simp add: clear_rows_def after_events_def)

lemma report_after_events:
  "report p q (after_events pre s) = (fst (report p q s), after_events pre (snd (report p q s)))"
  by (simp add: report_def Let_def emit_after_events) (simp add: after_events_def)

lemmas after_events_simps =
  emit_after_events add_row_after_events clear_rows_after_events report_after_events

lemma fixed_point_for_after_events:
  "fixed_point_for f tol is x (after_events pre s) =
     (fst (fixed_point_for f tol is x s), after_events pre (snd (fixed_point_for f tol is x s)))"
  by (induction "is" arbitrary: x s)
     (simp_all add: Let_def after_events_simps split: sum.splits)

lemma Newton_for_after_events:
  "Newton_for f fp TOL is p (after_events pre s) =
     (fst (Newton_for f fp TOL is p s), after_events pre (snd (Newton_for f fp TOL is p s)))"
  by (induction "is" arbitrary: p s)
     (simp_all add: Let_def after_events_simps)

lemma Secante_for_after_events:
  "Secante_for f TOL is p_0 q_0 p_1 q_1 (after_events pre s) =
     (fst (Secante_for f TOL is p_0 q_0 p_1 q_1 s),
      after_events pre (snd (Secante_for f TOL is p_0 q_0 p_1 q_1 s)))"
  by (induction "is" arbitrary: p_0 q_0 p_1 q_1 s)
     (simp_all add: Let_def after_events_simps)

lemma steffensen_for_after_events:
  "steffensen_for f tol is x (after_events pre s) =
     (fst (steffensen_for f tol is x s), after_events pre (snd (steffensen_for f tol is x s)))"
  by (induction "is" arbitrary: x s)
     (simp_all add: Let_def after_events_simps)

lemma emit_resultados_update: "emit e (s\<lparr>resultados := t\<rparr>) = (emit e s)\<lparr>resultados := t\<rparr>"
  by (simp add: emit_def)

lemma fixed_point_for_frames_table:
  "fixed_point_for f tol is x (s\<lparr>resultados := t\<rparr>) =
     (fst (fixed_point_for f tol is x s), (snd (fixed_point_for f tol is x s))\<lparr>resultados := t\<rparr>)"
  by (induction "is" arbitrary: x s)
     (simp_all add: Let_def emit_resultados_update split: sum.splits)

lemma steffensen_for_frames_table:
  "steffensen_for f tol is x (s\<lparr>resultados := t\<rparr>) =
     (fst (steffensen_for f tol is x s), (snd (steffensen_for f tol is x s))\<lparr>resultados := t\<rparr>)"
  by (induction "is" arbitrary: x s)
     (simp_all add: Let_def emit_resultados_update)

text \<open>Every state is the empty state with a table and with earlier events in front.\<close>

lemma state_decompose:
  "s = after_events (events s) (s_init\<lparr>resultados := resultados s\<rparr>)"
  by (simp add: after_events_def s_init_def)

lemma new_events_after_events:
  "events s = [] \<Longrightarrow> new_events (after_events pre s) (after_events pre s') = events s'"
  by (simp add: new_events_def after_events_def)

lemma Newton_Raphson_canonical:
  "fst (Newton_Raphson f fp p_0 TOL N_0 s) = fst (Newton_Raphson f fp p_0 TOL N_0 s_init) \<and>
   resultados (snd (Newton_Raphson f fp p_0 TOL N_0 s)) =
     resultados (snd (Newton_Raphson f fp p_0 TOL N_0 s_init)) \<and>
   new_events s (snd (Newton_Raphson f fp p_0 TOL N_0 s)) =
     events (snd (Newton_Raphson f fp p_0 TOL N_0 s_init))"
proof -
  have "clear_rows s = after_events (events s) (clear_rows s_init)"
    by (simp add: clear_rows_def after_events_def s_init_def)
  then have "Newton_Raphson f fp p_0 TOL N_0 s =
      (fst (Newton_Raphson f fp p_0 TOL N_0 s_init),
       after_events (events s) (snd (Newton_Raphson f fp p_0 TOL N_0 s_init)))"
    by (simp add: Newton_Raphson_def Newton_for_after_events)
  then show ?thesis
    by (simp add: new_events_def after_events_def)
qed

lemma Secante_canonical:
  "fst (Secante f p_0 p_1 TOL N_0 s) = fst (Secante f p_0 p_1 TOL N_0 s_init) \<and>
   resultados (snd (Secante f p_0 p_1 TOL N_0 s)) =
     resultados (snd (Secante f p_0 p_1 TOL N_0 s_init)) \<and>
   new_events s (snd (Secante f p_0 p_1 TOL N_0 s)) =
     events (snd (Secante f p_0 p_1 TOL N_0 s_init))"
proof -
  have "clear_rows s = after_events (events s) (clear_rows s_init)"
    by (simp add: clear_rows_def after_events_def s_init_def)
  then have "Secante f p_0 p_1 TOL N_0 s =
      (fst (Secante f p_0 p_1 TOL N_0 s_init),
       after_events (events s) (snd (Secante f p_0 p_1 TOL N_0 s_init)))"
    by (simp add: Secante_def Let_def Secante_for_after_events after_events_simps)
  then show ?thesis
    by (simp add: new_events_def after_events_def)
qed

lemma steffensen_canonical:
  "fst (steffensen f x0 tol max_iter s) = fst (steffensen f x0 tol max_iter s_init) \<and>
   resultados (snd (steffensen f x0 tol max_iter s)) = resultados s \<and>
   new_events s (snd (steffensen f x0 tol max_iter s)) =
     events (snd (steffensen f x0 tol max_iter s_init))"
proof -
  have "steffensen f x0 tol max_iter (after_events (events s) (s_init\<lparr>resultados := resultados s\<rparr>)) =
      (fst (steffensen f x0 tol max_iter s_init),
       after_events (events s) ((snd (steffensen f x0 tol max_iter s_init))\<lparr>resultados := resultados s\<rparr>))"
    by (simp add: steffensen_def steffensen_for_after_events steffensen_for_frames_table)
  then have "steffensen f x0 tol max_iter s =
      (fst (steffensen f x0 tol max_iter s_init),
       after_events (events s) ((snd (steffensen f x0 tol max_iter s_init))\<lparr>resultados := resultados s\<rparr>))"
    using state_decompose [of s] by simp
  then show ?thesis
    by (simp add: new_events_def after_events_def)
qed

lemma fixed_point_iteration_canonical:
  "fst (fixed_point_iteration f x0 tol max_iter s) = fst (fixed_point_iteration f x0 tol max_iter s_init) \<and>
   resultados (snd (fixed_point_iteration f x0 tol max_iter s)) = resultados s \<and>
   new_events s (snd (fixed_point_iteration f x0 tol max_iter s)) =
     events (snd (fixed_point_iteration f x0 tol max_iter s_init))"
proof -
  have "fixed_point_iteration f x0 tol max_iter
          (after_events (events s) (s_init\<lparr>resultados := resultados s\<rparr>)) =
      (fst (fixed_point_iteration f x0 tol max_iter s_init),
       after_events (events s)
         ((snd (fixed_point_iteration f x0 tol max_iter s_init))\<lparr>resultados := resultados s\<rparr>))"
    by (simp add: fixed_point_iteration_def fixed_point_for_after_events
        fixed_point_for_frames_table)
  then have "fixed_point_iteration f x0 tol max_iter s =
      (fst (fixed_point_iteration f x0 tol max_iter s_init),
       after_events (events s)
         ((snd (fixed_point_iteration f x0 tol max_iter s_init))\<lparr>resultados := resultados s\<rparr>))"
    using state_decompose [of s] by simp
  then show ?thesis
    by (simp add: new_events_def after_events_def)
qed

text \<open>
  C7. For pure caller-supplied functions (functions of HOL), the outcome of a call
  does not depend on the state earlier calls have left: started in any two states
  \<open>s1\<close> and \<open>s2\<close>, a solver returns the same value or raises the same exception and
  performs the same calls and prints in the same order, and \<^verbatim>\<open>Newton_Raphson\<close> and
  \<^verbatim>\<open>Secante\<close> leave the same rows in \<^verbatim>\<open>resultados\<close>, which they clear first.
\<close>

theorem calls_independent_of_earlier_state:
  "fst (Newton_Raphson f fp p_0 tol max_iter s1) = fst (Newton_Raphson f fp p_0 tol max_iter s2) \<and>
   resultados (snd (Newton_Raphson f fp p_0 tol max_iter s1)) =
     resultados (snd (Newton_Raphson f fp p_0 tol max_iter s2)) \<and>
   new_events s1 (snd (Newton_Raphson f fp p_0 tol max_iter s1)) =
     new_events s2 (snd (Newton_Raphson f fp p_0 tol max_iter s2)) \<and>
   fst (Secante f p_0 p_1 tol max_iter s1) = fst (Secante f p_0 p_1 tol max_iter s2) \<and>
   resultados (snd (Secante f p_0 p_1 tol max_iter s1)) =
     resultados (snd (Secante f p_0 p_1 tol max_iter s2)) \<and>
   new_events s1 (snd (Secante f p_0 p_1 tol max_iter s1)) =
     new_events s2 (snd (Secante f p_0 p_1 tol max_iter s2)) \<and>
   fst (steffensen f p_0 tol max_iter s1) = fst (steffensen f p_0 tol max_iter s2) \<and>
   new_events s1 (snd (steffensen f p_0 tol max_iter s1)) =
     new_events s2 (snd (steffensen f p_0 tol max_iter s2)) \<and>
   fst (fixed_point_iteration g x0 tol max_iter sv1) =
     fst (fixed_point_iteration g x0 tol max_iter sv2) \<and>
   new_events sv1 (snd (fixed_point_iteration g x0 tol max_iter sv1)) =
     new_events sv2 (snd (fixed_point_iteration g x0 tol max_iter sv2))"
  using Newton_Raphson_canonical [of f fp p_0 tol max_iter s1]
    Newton_Raphson_canonical [of f fp p_0 tol max_iter s2]
    Secante_canonical [of f p_0 p_1 tol max_iter s1]
    Secante_canonical [of f p_0 p_1 tol max_iter s2]
    steffensen_canonical [of f p_0 tol max_iter s1]
    steffensen_canonical [of f p_0 tol max_iter s2]
    fixed_point_iteration_canonical [of g x0 tol max_iter sv1]
    fixed_point_iteration_canonical [of g x0 tol max_iter sv2]
  by simp

text \<open>
  The theorem for a second call of \<^verbatim>\<open>Newton_Raphson\<close> right after a first one, and for a
  call after a call of \<^verbatim>\<open>Secante\<close>.
\<close>

theorem calls_independent_of_earlier_state_witness:
  "fst (Newton_Raphson ex_parabola ex_parabola_prime 3 (1 / 1000000) 1000
         (snd (Newton_Raphson ex_parabola ex_parabola_prime 3 (1 / 1000000) 1000 s_used))) =
     fst (Newton_Raphson ex_parabola ex_parabola_prime 3 (1 / 1000000) 1000 s_used) \<and>
   resultados (snd (Newton_Raphson ex_parabola ex_parabola_prime 3 (1 / 1000000) 1000
         (snd (Secante ex_parabola 3 4 (1 / 1000000) 1000 s_used)))) =
     resultados (snd (Newton_Raphson ex_parabola ex_parabola_prime 3 (1 / 1000000) 1000 s_init))"
  using calls_independent_of_earlier_state
    [of ex_parabola ex_parabola_prime 3 "1 / 1000000" 1000
        "snd (Newton_Raphson ex_parabola ex_parabola_prime 3 (1 / 1000000) 1000 s_used)" s_used]
    calls_independent_of_earlier_state
    [of ex_parabola ex_parabola_prime 3 "1 / 1000000" 1000
        "snd (Secante ex_parabola 3 4 (1 / 1000000) 1000 s_used)" s_init]
  by simp

section \<open>Starting at the exact solution\<close>

lemma allclose_same: "0 \<le> tol \<Longrightarrow> allclose r r tol = Inr True"
  by (auto simp add: allclose_def broadcast_def list_all_iff isclose_def rtol_def zip_same)

text \<open>
  C2 (as amended). With \<open>tol > 0\<close> and a budget of at least one iteration:
  \<^item> \<^verbatim>\<open>fixed_point_iteration\<close> started at a fixed point \<open>r\<close> of \<open>g\<close> returns \<open>r\<close> in its
    first iteration;
  \<^item> \<^verbatim>\<open>Newton_Raphson\<close> started at a root \<open>x \<noteq> 0\<close> of \<open>f\<close> with \<open>fp x \<noteq> 0\<close> returns \<open>x\<close>
    in its first iteration;
  \<^item> \<^verbatim>\<open>Secante\<close> whose second guess is a root \<open>x \<noteq> 0\<close> of \<open>f\<close>, with \<open>f p_0 \<noteq> 0\<close>,
    returns \<open>x\<close> in its first iteration;
  \<^item> \<^verbatim>\<open>steffensen\<close> started at a fixed point \<open>y\<close> of \<open>h\<close> ends in its first iteration
    too, but with \<^verbatim>\<open>None\<close>: there the Aitken denominator is \<open>0\<close>, and the guard on the
    denominator comes before the convergence test.
\<close>

theorem exact_guess_first_iteration:
  "(0 < tol \<and> 0 < max_iter \<and> g r = r \<longrightarrow>
      fst (fixed_point_iteration g r tol max_iter sv) = Inr r \<and>
      new_events sv (snd (fixed_point_iteration g r tol max_iter sv)) =
        [Enter_loop 0, Call_f r]) \<and>
   (0 < tol \<and> 0 < max_iter \<and> f x = 0 \<and> fp x \<noteq> 0 \<and> x \<noteq> 0 \<longrightarrow>
      fst (Newton_Raphson f fp x tol max_iter s) = Inr x \<and>
      iterations (new_events s (snd (Newton_Raphson f fp x tol max_iter s))) = 1) \<and>
   (0 < tol \<and> 0 < max_iter \<and> f x = 0 \<and> f p_0 \<noteq> 0 \<and> x \<noteq> 0 \<longrightarrow>
      fst (Secante f p_0 x tol max_iter s) = Inr x \<and>
      iterations (new_events s (snd (Secante f p_0 x tol max_iter s))) = 1) \<and>
   (0 < tol \<and> 0 < max_iter \<and> h y = y \<longrightarrow>
      fst (steffensen h y tol max_iter s) = Inr None \<and>
      iterations (new_events s (snd (steffensen h y tol max_iter s))) = 1)"
proof (intro conjI impI)
  assume a: "0 < tol \<and> 0 < max_iter \<and> g r = r"
  then have close: "allclose (g r) r tol = Inr True"
    by (simp add: allclose_same)
  from a close show "fst (fixed_point_iteration g r tol max_iter sv) = Inr r"
    by (simp add: fixed_point_iteration_def range_py_pos Let_def)
  from a close show "new_events sv (snd (fixed_point_iteration g r tol max_iter sv)) =
        [Enter_loop 0, Call_f r]"
    by (simp add: fixed_point_iteration_def range_py_pos Let_def new_events_def state_simps)
next
  assume a: "0 < tol \<and> 0 < max_iter \<and> f x = 0 \<and> fp x \<noteq> 0 \<and> x \<noteq> 0"
  then show "fst (Newton_Raphson f fp x tol max_iter s) = Inr x"
    by (simp add: Newton_Raphson_def range_py_pos Let_def report_def)
  from a show "iterations (new_events s (snd (Newton_Raphson f fp x tol max_iter s))) = 1"
    by (simp add: Newton_Raphson_def range_py_pos Let_def report_def new_events_def state_simps
        iterations_def)
next
  assume a: "0 < tol \<and> 0 < max_iter \<and> f x = 0 \<and> f p_0 \<noteq> 0 \<and> x \<noteq> 0"
  then show "fst (Secante f p_0 x tol max_iter s) = Inr x"
    by (simp add: Secante_def range_py_pos Let_def report_def)
  from a show "iterations (new_events s (snd (Secante f p_0 x tol max_iter s))) = 1"
    by (simp add: Secante_def range_py_pos Let_def report_def new_events_def state_simps
        iterations_def)
next
  assume a: "0 < tol \<and> 0 < max_iter \<and> h y = y"
  then show "fst (steffensen h y tol max_iter s) = Inr None"
    by (simp add: steffensen_def range_py_pos Let_def)
  from a show "iterations (new_events s (snd (steffensen h y tol max_iter s))) = 1"
    by (simp add: steffensen_def range_py_pos Let_def new_events_def state_simps iterations_def)
qed

text \<open>
  The theorem at \<open>[0]\<close> for \<open>x / 2\<close>, at the root \<open>2\<close> of \<open>x\<^sup>2 - 4\<close>, and at the fixed point
  \<open>2\<close> of \<open>x\<^sup>2 - 4 + x\<close>.
\<close>

theorem exact_guess_first_iteration_witness:
  "fst (fixed_point_iteration ex_halve_vec [0] (1 / 1000000) 1000 s_init) = Inr [0] \<and>
   new_events s_init (snd (fixed_point_iteration ex_halve_vec [0] (1 / 1000000) 1000 s_init)) =
     [Enter_loop 0, Call_f [0]] \<and>
   fst (Newton_Raphson ex_parabola ex_parabola_prime 2 (1 / 1000000) 1000 s_init) = Inr 2 \<and>
   iterations (new_events s_init
     (snd (Newton_Raphson ex_parabola ex_parabola_prime 2 (1 / 1000000) 1000 s_init))) = 1 \<and>
   fst (Secante ex_parabola 3 2 (1 / 1000000) 1000 s_init) = Inr 2 \<and>
   iterations (new_events s_init (snd (Secante ex_parabola 3 2 (1 / 1000000) 1000 s_init))) = 1 \<and>
   fst (steffensen ex_shifted 2 (1 / 1000000) 1000 s_init) = Inr None \<and>
   iterations (new_events s_init (snd (steffensen ex_shifted 2 (1 / 1000000) 1000 s_init))) = 1"
  using exact_guess_first_iteration
    [of "1 / 1000000" 1000 ex_halve_vec "[0]" s_init ex_parabola 2 ex_parabola_prime s_init 3
        ex_shifted 2]
  by (simp add: ex_halve_vec_def ex_parabola_def ex_parabola_prime_def ex_shifted_def)

text \<open>
  The claim as written fails for \<^verbatim>\<open>steffensen\<close>: started at the exact fixed point \<open>2\<close> of
  the map of its docstring, the call does not return the fixed point but \<^verbatim>\<open>None\<close>.
\<close>

theorem steffensen_exact_fixed_point_returns_None:
  "ex_shifted 2 = 2 \<and>
   steffensen ex_shifted 2 (1 / 1000000) 100 s_init =
     (Inr None,
      \<lparr>resultados = [],
       events = [Enter_loop 0, Call_f 2, Call_f 2, Print_text denominator_warning]\<rparr>)"
  by (simp add: steffensen_def range_py_pos Let_def ex_shifted_def s_init_def emit_def)

section \<open>A secant run that converges to zero\<close>

text \<open>
  C6, at a failing input. For \<open>f x = x\<close>, \<open>p_0 = 1\<close>, \<open>p_1 = 2\<close> the first secant step gives
  \<open>p = 0\<close> and the second gives \<open>p = 0\<close> again, so \<open>|p - p_1| = 0 < TOL\<close>. The call does
  not return \<open>p\<close>: after printing the table it divides by \<open>|p| = 0\<close> for the relative
  error and raises \<open>ZeroDivisionError\<close>.
\<close>

theorem Secante_converged_to_zero_raises:
  "Secante ex_identity 1 2 (1 / 1000000) 1000 s_init =
     (Inl ZeroDivisionError,
      \<lparr>resultados = [(0, 1, 1), (1, 2, 2), (0, 0, 0), (1, 0, 0)],
       events = [Call_f 1, Call_f 2, Enter_loop 0, Call_f 0, Call_f 0, Enter_loop 1, Call_f 0,
                 Print_table [(0, 1, 1), (1, 2, 2), (0, 0, 0), (1, 0, 0)]]\<rparr>)"
  by (simp add: Secante_def range_py_pos upto_rec1 [of 1] Let_def report_def ex_identity_def
      s_init_def emit_def add_row_def clear_rows_def)

section \<open>The caller's initial guess\<close>

lemma fixed_point_heap_for_leaves_x0:
  "leaves_alone f a0 \<Longrightarrow> a0 < length h \<Longrightarrow> x < length h \<Longrightarrow> x \<noteq> a0 \<Longrightarrow>
   a0 < length (snd (fixed_point_heap_for f tol is x h)) \<and>
   snd (fixed_point_heap_for f tol is x h) ! a0 = h ! a0"
proof (induction "is" arbitrary: x h)
  case Nil
  then show ?case by simp
next
  case (Cons i rest)
  obtain h1 y where call: "f h x = (h1, y)"
    by (cases "f h x")
  from Cons.prems call have h1: "a0 < length h1" "h1 ! a0 = h ! a0" "y < length h1"
    unfolding leaves_alone_def by (metis fst_conv snd_conv)+
  define h2 where "h2 = h1 @ [h1 ! y]"
  from h1 have h2: "a0 < length h2" "h2 ! a0 = h ! a0" "length h1 < length h2" "length h1 \<noteq> a0"
    by (simp_all add: h2_def nth_append)
  from Cons.IH [OF Cons.prems(1) h2(1) h2(3) h2(4)] h2(2)
  have rec: "a0 < length (snd (fixed_point_heap_for f tol rest (length h1) h2)) \<and>
      snd (fixed_point_heap_for f tol rest (length h1) h2) ! a0 = h ! a0"
    by simp
  show ?case
  proof (cases "allclose (h2 ! length h1) (h2 ! x) tol")
    case (Inl e)
    with call h2 show ?thesis
      by (simp add: np_array_def h2_def)
  next
    case (Inr close)
    with call h2 rec show ?thesis
      by (cases close) (simp_all add: np_array_def h2_def)
  qed
qed

text \<open>
  C9. \<^verbatim>\<open>fixed_point_iteration\<close> works on a copy of \<^verbatim>\<open>x0\<close> made by \<^verbatim>\<open>np.array(x0)\<close> and hands
  only that copy, and later the copies of the results of \<open>f\<close>, to \<open>f\<close>. So if \<open>f\<close> writes
  to no array but the one it is handed and those it creates, the array at the address
  \<open>x0\<close> holds the same components after the call as before, whether the call returns or
  raises.
\<close>

theorem fixed_point_iteration_leaves_x0:
  assumes "x0 < length h" and "leaves_alone f x0"
  shows "x0 < length (snd (fixed_point_iteration_heap f x0 tol max_iter h)) \<and>
         snd (fixed_point_iteration_heap f x0 tol max_iter h) ! x0 = h ! x0"
proof -
  from assms(1) have copy: "x0 < length (h @ [h ! x0])" "length h < length (h @ [h ! x0])"
    "length h \<noteq> x0" "(h @ [h ! x0]) ! x0 = h ! x0"
    by (simp_all add: nth_append)
  from fixed_point_heap_for_leaves_x0 [OF assms(2) copy(1) copy(2) copy(3)] copy(4)
  show ?thesis
    by (simp add: fixed_point_iteration_heap_def np_array_def)
qed

lemma ex_halve_in_place_leaves_alone: "leaves_alone ex_halve_in_place a0"
  by (simp add: leaves_alone_def ex_halve_in_place_def)

text \<open>
  The theorem for a function that halves its argument in place and hands it back: the
  call returns a new array holding \<open>[1/2]\<close> and the caller's \<open>[1]\<close> is untouched.
\<close>

theorem fixed_point_iteration_leaves_x0_witness:
  "fst (fixed_point_iteration_heap ex_halve_in_place 0 (1 / 4) 10 [[1]]) = Inr 2 \<and>
   snd (fixed_point_iteration_heap ex_halve_in_place 0 (1 / 4) 10 [[1]]) ! 2 = [1 / 2] \<and>
   snd (fixed_point_iteration_heap ex_halve_in_place 0 (1 / 4) 10 [[1]]) ! 0 = [1]"
proof -
  have run: "fst (fixed_point_iteration_heap ex_halve_in_place 0 (1 / 4) 10 [[1]]) = Inr 2 \<and>
      snd (fixed_point_iteration_heap ex_halve_in_place 0 (1 / 4) 10 [[1]]) ! 2 = [1 / 2]"
    by (simp add: fixed_point_iteration_heap_def np_array_def range_py_pos ex_halve_in_place_def
        allclose_def broadcast_def isclose_def rtol_def)
  have "(0::nat) < length [[1::real]]" by simp
  from fixed_point_iteration_leaves_x0 [OF this ex_halve_in_place_leaves_alone, of "1 / 4" 10] run
  show ?thesis by simp
qed

text \<open>
  For a function that writes nowhere, the heap-level run returns the array that the
  value-level run of \<^verbatim>\<open>fixed_point_iteration\<close> above returns, or raises the same error.
\<close>

lemma pure_fn_leaves_alone: "leaves_alone (pure_fn g) a0"
  by (simp add: leaves_alone_def pure_fn_def nth_append)

lemma fixed_point_heap_for_pure:
  "x < length h \<Longrightarrow>
   (case fst (fixed_point_heap_for (pure_fn g) tol is x h) of
      Inl e \<Rightarrow> Inl e
    | Inr a \<Rightarrow> Inr (snd (fixed_point_heap_for (pure_fn g) tol is x h) ! a))
   = fst (fixed_point_for g tol is (h ! x) s)"
proof (induction "is" arbitrary: x h s)
  case Nil
  then show ?case by simp
next
  case (Cons i rest)
  define h2 where "h2 = h @ [g (h ! x), g (h ! x)]"
  define s1 where "s1 = emit (Call_f (h ! x)) (emit (Enter_loop i) s)"
  from Cons.prems have h2: "Suc (length h) < length h2" "h2 ! Suc (length h) = g (h ! x)"
    "h2 ! x = h ! x"
    by (simp_all add: h2_def nth_append)
  have rec: "(case fst (fixed_point_heap_for (pure_fn g) tol rest (Suc (length h)) h2) of
      Inl e \<Rightarrow> Inl e
    | Inr a \<Rightarrow> Inr (snd (fixed_point_heap_for (pure_fn g) tol rest (Suc (length h)) h2) ! a))
   = fst (fixed_point_for g tol rest (g (h ! x)) s1)"
    using Cons.IH [OF h2(1), of s1] by (simp only: h2(2))
  have heap_step: "fixed_point_heap_for (pure_fn g) tol (i # rest) x h =
      (case allclose (g (h ! x)) (h ! x) tol of
         Inl e \<Rightarrow> (Inl e, h2)
       | Inr close \<Rightarrow>
           if close then (Inr (Suc (length h)), h2)
           else fixed_point_heap_for (pure_fn g) tol rest (Suc (length h)) h2)"
    using Cons.prems
    by (simp add: pure_fn_def [of g h x] np_array_def nth_append h2_def split: sum.splits)
  have value_step: "fixed_point_for g tol (i # rest) (h ! x) s =
      (case allclose (g (h ! x)) (h ! x) tol of
         Inl e \<Rightarrow> (Inl e, s1)
       | Inr close \<Rightarrow>
           if close then (Inr (g (h ! x)), s1)
           else fixed_point_for g tol rest (g (h ! x)) s1)"
    by (simp add: Let_def s1_def split: sum.splits)
  show ?case
  proof (cases "allclose (g (h ! x)) (h ! x) tol")
    case (Inl e)
    then have "fixed_point_heap_for (pure_fn g) tol (i # rest) x h = (Inl e, h2)"
      "fixed_point_for g tol (i # rest) (h ! x) s = (Inl e, s1)"
      by (simp_all only: heap_step value_step sum.case)
    then show ?thesis by (simp only: fst_conv sum.case)
  next
    case (Inr close)
    show ?thesis
    proof (cases close)
      case True
      with Inr have "fixed_point_heap_for (pure_fn g) tol (i # rest) x h = (Inr (Suc (length h)), h2)"
        "fixed_point_for g tol (i # rest) (h ! x) s = (Inr (g (h ! x)), s1)"
        by (simp_all only: heap_step value_step sum.case if_True)
      with h2(2) show ?thesis by (simp only: fst_conv snd_conv sum.case)
    next
      case False
      with Inr have "fixed_point_heap_for (pure_fn g) tol (i # rest) x h =
          fixed_point_heap_for (pure_fn g) tol rest (Suc (length h)) h2"
        "fixed_point_for g tol (i # rest) (h ! x) s = fixed_point_for g tol rest (g (h ! x)) s1"
        by (simp_all only: heap_step value_step sum.case if_False)
      with rec show ?thesis by (simp only:)
    qed
  qed
qed

lemma fixed_point_iteration_heap_pure:
  "x0 < length h \<Longrightarrow>
   (case fst (fixed_point_iteration_heap (pure_fn g) x0 tol max_iter h) of
      Inl e \<Rightarrow> Inl e
    | Inr a \<Rightarrow> Inr (snd (fixed_point_iteration_heap (pure_fn g) x0 tol max_iter h) ! a))
   = fst (fixed_point_iteration g (h ! x0) tol max_iter s)"
  using fixed_point_heap_for_pure [of "length h" "h @ [h ! x0]" g tol "range_py max_iter" s]
  by (simp add: fixed_point_iteration_heap_def fixed_point_iteration_def np_array_def nth_append
      split: sum.splits)

end
